theory Spec2Isabelle
  imports Complex_Main "HOL-Library.AList"
begin

section \<open>Board game suggestion: scoring and expansion collapsing of \<open>bgs.py\<close>\<close>

text \<open>
  The development embeds the scoring engine (\<open>Master.rate_our_games\<close>) and the
  expansion collapser (\<open>Master.show_your_decision\<close>) of \<open>bgs.py\<close>.

  Conventions of the embedding.
  \<^item> Python \<open>float\<close> is read as \<open>real\<close>: every statement below is about the exact
    arithmetic of the formulas, not about binary rounding, overflow or NaN.
  \<^item> Python \<open>int\<close> is \<open>int\<close>.
  \<^item> A \<open>dict\<close> that the code iterates is an association list in insertion order
    (\<open>map_of\<close> reads it, \<open>AList.update\<close> stores, \<open>AList.delete\<close> pops); a \<open>dict\<close>
    that is only read by key is a map.
  \<^item> A \<open>set\<close> that the code iterates is a list without repetition, in some fixed
    iteration order.
  \<^item> An exception, and \<open>exit()\<close>, is a value \<open>Inl e\<close> of \<open>py_error + 'a\<close>.
  \<^item> Logging and the diagnostic breakdown \<open>__detailed_evaluations\<close> are not modelled.
\<close>

subsection \<open>Errors\<close>

datatype py_error = SystemExit | KeyError | TypeError | ZeroDivisionError | ValueError

definition bind_err :: "py_error + 'a \<Rightarrow> ('a \<Rightarrow> py_error + 'b) \<Rightarrow> py_error + 'b" where
  "bind_err r f = (case r of Inl e \<Rightarrow> Inl e | Inr x \<Rightarrow> f x)"

subsection \<open>Data model\<close>

text \<open>Class \<open>GameStats\<close>: one player's statistics for one game.\<close>

record GameStats =
  owned :: bool
  rating :: "real option"
  play_count :: int
  want_to_play :: bool

text \<open>Class \<open>Player\<close>; \<open>games_stats\<close> is only ever read by key.\<close>

record Player =
  username :: string
  is_guest :: bool
  games_stats :: "int \<rightharpoonup> GameStats"

text \<open>
  Class \<open>Game\<close>. \<open>suggested_players\<close> maps a player count to the votes per category;
  \<open>expansion_of\<close> is a set of base game ids, \<open>None\<close> until the parser finds one.
\<close>

record Game =
  game_id :: int
  name :: string
  player_min :: "int option"
  player_max :: "int option"
  playing_time :: "int option"
  suggested_players :: "(int \<times> (string \<times> int) list) list option"
  is_an_expansion :: bool
  expansion_of :: "int list option"
  average_weight :: "real option"
  average_rating :: "real option"

text \<open>
  Class \<open>Master\<close>: the state that \<open>rate_our_games\<close> fills and \<open>show_your_decision\<close>
  reads. The fields are the private attributes of the class, without the leading
  underscores.
\<close>

record Master =
  game_group :: "Player list"
  collection_group :: "Player list"
  collection :: "(int \<times> Game) list"
  available_collection :: "int list"
  possible_collection :: "int list"
  evaluations :: "(int \<times> real) list"

subsection \<open>Python primitives\<close>

text \<open>Truth value of an optional number: \<open>None\<close> and zero are false.\<close>

definition truthy :: "real option \<Rightarrow> bool" where
  "truthy v = (case v of None \<Rightarrow> False | Some x \<Rightarrow> x \<noteq> 0)"

text \<open>
  \<open>round(value, 4)\<close>: to the nearest multiple of \<open>1/10000\<close>, a tie going to the even
  multiple.
\<close>

definition round_half_even :: "real \<Rightarrow> int" where
  "round_half_even y =
     (let f = \<lfloor>y\<rfloor>; d = y - of_int f
      in if d < 1 / 2 then f else if 1 / 2 < d then f + 1 else if even f then f else f + 1)"

definition py_round4 :: "real \<Rightarrow> real" where
  "py_round4 v = of_int (round_half_even (v * 10000)) / 10000"

text \<open>\<open>standardize\<close>, line 82.\<close>

definition standardize :: "real \<Rightarrow> real" where
  "standardize v = max 0 (min 1 (py_round4 v))"

text \<open>\<open>d[k]\<close> on a dict of votes, and true division.\<close>

definition getitem :: "('k \<times> 'v) list \<Rightarrow> 'k \<Rightarrow> py_error + 'v" where
  "getitem d k = (case map_of d k of None \<Rightarrow> Inl KeyError | Some v \<Rightarrow> Inr v)"

definition truediv :: "real \<Rightarrow> real \<Rightarrow> py_error + real" where
  "truediv a b = (if b = 0 then Inl ZeroDivisionError else Inr (a / b))"

text \<open>\<open>n in range(lo, hi + 1)\<close>.\<close>

definition in_range :: "int \<Rightarrow> int \<Rightarrow> int \<Rightarrow> bool" where
  "in_range n lo hi = (lo \<le> n \<and> n < hi + 1)"

text \<open>\<open>s.add(x)\<close> on a set kept as a list.\<close>

definition set_add :: "int list \<Rightarrow> int \<Rightarrow> int list" where
  "set_add s x = (if x \<in> set s then s else s @ [x])"

subsection \<open>The four sub-scores of \<open>rate_our_games\<close>\<close>

text \<open>
  Each sub-score is a pair \<open>(raw, weight)\<close>. \<open>req_time\<close> and \<open>req_weight\<close> are the
  parameters \<open>playing_time\<close> and \<open>weight\<close> of \<open>rate_our_games\<close>.

  Playing time, lines 599 to 613.
\<close>

definition score_playing_time :: "Game \<Rightarrow> int option \<Rightarrow> real option \<Rightarrow> real \<times> real" where
  "score_playing_time g req_time req_weight =
     (let s0 = (if truthy req_weight then (0.5, 0.4) else (0, 0))
      in case (playing_time g, req_time) of
           (Some gt, Some t) \<Rightarrow>
             (let delta_time = \<bar>t - gt\<bar>; max_delta = t
              in if max_delta \<le> delta_time then (0, 0.4)
                 else (1 - (2 powr (of_int delta_time * (3 / of_int max_delta) + 2) - 4) / 28, 0.4))
         | _ \<Rightarrow> s0)"

text \<open>Weight, lines 615 to 629.\<close>

definition score_weight :: "Game \<Rightarrow> real option \<Rightarrow> real \<times> real" where
  "score_weight g req_weight =
     (let s0 = (if truthy req_weight then (0.5, 0.4) else (0, 0))
      in case (average_weight g, req_weight) of
           (Some gw, Some w) \<Rightarrow>
             (let delta_weight = \<bar>w - gw\<bar>; max_delta = 2.5
              in if max_delta \<le> delta_weight then (0, 0.4)
                 else (1 - (2 powr (delta_weight * (2 / max_delta) + 2) - 4) / 16, 0.4))
         | _ \<Rightarrow> s0)"

text \<open>
  Suggested number of players, lines 631 to 643. The four statements that build
  \<open>score_suggestion\<close> run in the source's order, so that a missing key or a zero
  total raises where the source raises.
\<close>

definition score_suggestion :: "(string \<times> int) list \<Rightarrow> py_error + real" where
  "score_suggestion suggested_values =
     (let suggested_max_score = of_int (sum_list (map snd suggested_values))
      in bind_err (getitem suggested_values ''Not Recommended'') (\<lambda>nr.
         bind_err (truediv (of_int nr * 0.5) suggested_max_score) (\<lambda>s1.
         bind_err (getitem suggested_values ''Best'') (\<lambda>b.
         bind_err (truediv (of_int b * 1.0) suggested_max_score) (\<lambda>s2.
         bind_err (getitem suggested_values ''Recommended'') (\<lambda>r.
         bind_err (truediv (of_int r * 0.5) suggested_max_score) (\<lambda>s3.
         bind_err (getitem suggested_values ''Not Recommended'') (\<lambda>nr'.
         bind_err (truediv (of_int nr' * 0.5) suggested_max_score) (\<lambda>s4.
         Inr (s1 + s2 + s3 - s4))))))))))"

definition suggested_values_score :: "Game \<Rightarrow> int \<Rightarrow> py_error + real \<times> real" where
  "suggested_values_score g number_of_players =
     (case suggested_players g of
        None \<Rightarrow> Inr (0.6, 0.2)
      | Some sp \<Rightarrow>
          if sp = [] then Inr (0.6, 0.2)
          else (case map_of sp number_of_players of
                  None \<Rightarrow> Inr (0.6, 0.2)
                | Some suggested_values \<Rightarrow>
                    if suggested_values = [] then Inr (0.6, 0.2)
                    else bind_err (score_suggestion suggested_values)
                           (\<lambda>s. Inr (max 0 s, 0.2))))"

text \<open>
  Players' taste, lines 645 to 689. \<open>player_step\<close> is one turn of the loop over the
  game group on the pair \<open>(players_score, divide_by)\<close>; a \<open>continue\<close> returns the pair
  unchanged.
\<close>

definition player_step :: "int \<Rightarrow> Player \<Rightarrow> real \<times> real \<Rightarrow> real \<times> real" where
  "player_step gid player acc =
     (case acc of (players_score, divide_by) \<Rightarrow>
        if is_guest player then acc
        else (case games_stats player gid of
                None \<Rightarrow> acc
              | Some stats \<Rightarrow>
                  if want_to_play stats then
                    (if truthy (rating stats)
                     then (players_score + 0.8 + the (rating stats) * 0.2, divide_by + 1)
                     else (players_score + 0.9, divide_by + 1))
                  else if truthy (rating stats) then
                    (if play_count stats \<noteq> 0
                     then (players_score
                            + exp (of_int (play_count stats) / (2 powr (the (rating stats) * 10)) * (- 1))
                              * the (rating stats), divide_by + 1)
                     else (players_score + the (rating stats) * 0.8, divide_by + 1))
                  else acc))"

definition players_start :: "Game \<Rightarrow> real \<times> real" where
  "players_start g =
     (if truthy (average_rating g) then (the (average_rating g) * 0.5, 0.5) else (0, 0))"

definition players_score :: "int \<Rightarrow> Game \<Rightarrow> Player list \<Rightarrow> real \<times> real" where
  "players_score gid g players =
     (case fold (player_step gid) players (players_start g) of
        (acc_score, divide_by) \<Rightarrow> if 0 < divide_by then (acc_score / divide_by, 0.4) else (0.5, 0.4))"

text \<open>The final score of one game, lines 691 to 697.\<close>

definition final_score :: "(real \<times> real) list \<Rightarrow> real" where
  "final_score scores =
     (let score_weights_sum = sum_list (map snd scores)
      in if 0 < score_weights_sum
         then standardize (sum_list (map (\<lambda>s. fst s * snd s) scores) / score_weights_sum)
         else 0)"

definition rate_game ::
  "int \<Rightarrow> Game \<Rightarrow> Player list \<Rightarrow> int option \<Rightarrow> real option \<Rightarrow> py_error + real" where
  "rate_game gid g players req_time req_weight =
     bind_err (suggested_values_score g (int (length players))) (\<lambda>sv.
       Inr (final_score
              [score_playing_time g req_time req_weight,
               score_weight g req_weight,
               sv,
               players_score gid g players]))"

subsection \<open>The candidate filter of \<open>rate_our_games\<close>\<close>

text \<open>
  Lines 554 to 583. \<open>owned_by_group\<close> is the \<open>any([...])\<close> of line 556: some player of
  the collection group has statistics for the game and owns it.
\<close>

definition owned_by_group :: "Player list \<Rightarrow> int \<Rightarrow> bool" where
  "owned_by_group owners gid =
     list_ex (\<lambda>player. case games_stats player gid of None \<Rightarrow> False | Some s \<Rightarrow> owned s) owners"

definition select_available :: "Master \<Rightarrow> int list" where
  "select_available m =
     fold (\<lambda>gid s. if owned_by_group (collection_group m) gid then set_add s gid else s)
       (map fst (collection m)) (available_collection m)"

text \<open>
  The body of the loop of line 565 for one game: \<open>Inr False\<close> is a \<open>continue\<close>,
  \<open>Inr True\<close> reaches line 578. Iterating \<open>expansion_of\<close> when it is \<open>None\<close> is a
  \<open>TypeError\<close>.
\<close>

definition check_game :: "int list \<Rightarrow> int \<Rightarrow> Game \<Rightarrow> py_error + bool" where
  "check_game available number_of_players g =
     (if (player_min g \<noteq> None \<and> player_max g \<noteq> None)
         \<and> \<not> in_range number_of_players (the (player_min g)) (the (player_max g))
      then Inr False
      else if is_an_expansion g then
        (case expansion_of g of
           None \<Rightarrow> Inl TypeError
         | Some bases \<Rightarrow> Inr (\<not> list_all (\<lambda>base_id. base_id \<notin> set available) bases))
      else Inr True)"

fun select_possible ::
  "(int \<times> Game) list \<Rightarrow> int list \<Rightarrow> int \<Rightarrow> int list \<Rightarrow> int list \<Rightarrow> py_error + int list" where
  "select_possible coll available n [] possible = Inr possible"
| "select_possible coll available n (gid # rest) possible =
     (case getitem coll gid of
        Inl e \<Rightarrow> Inl e
      | Inr g \<Rightarrow>
          (case check_game available n g of
             Inl e \<Rightarrow> Inl e
           | Inr ok \<Rightarrow>
               select_possible coll available n rest
                 (if ok then set_add possible gid else possible)))"

text \<open>The filter returns the pair \<open>(available, possible)\<close>; \<open>exit()\<close> is \<open>SystemExit\<close>.\<close>

definition candidate_filter :: "Master \<Rightarrow> py_error + int list \<times> int list" where
  "candidate_filter m =
     (let available = select_available m
      in if available = [] then Inl SystemExit
         else (case select_possible (collection m) available (int (length (game_group m)))
                      available (possible_collection m) of
                 Inl e \<Rightarrow> Inl e
               | Inr possible \<Rightarrow>
                   if possible = [] then Inl SystemExit else Inr (available, possible)))"

subsection \<open>\<open>rate_our_games\<close>\<close>

text \<open>The loop of line 593: every possible game is rated and stored.\<close>

fun rate_all ::
  "Master \<Rightarrow> int option \<Rightarrow> real option \<Rightarrow> int list \<Rightarrow> (int \<times> real) list
     \<Rightarrow> py_error + (int \<times> real) list" where
  "rate_all m req_time req_weight [] evals = Inr evals"
| "rate_all m req_time req_weight (gid # rest) evals =
     (case getitem (collection m) gid of
        Inl e \<Rightarrow> Inl e
      | Inr g \<Rightarrow>
          (case rate_game gid g (game_group m) req_time req_weight of
             Inl e \<Rightarrow> Inl e
           | Inr s \<Rightarrow> rate_all m req_time req_weight rest (AList.update gid s evals)))"

definition rate_our_games :: "Master \<Rightarrow> int option \<Rightarrow> real option \<Rightarrow> py_error + Master" where
  "rate_our_games m req_time req_weight =
     (case candidate_filter m of
        Inl e \<Rightarrow> Inl e
      | Inr (available, possible) \<Rightarrow>
          (case rate_all m req_time req_weight possible (evaluations m) of
             Inl e \<Rightarrow> Inl e
           | Inr evals \<Rightarrow>
               Inr (m\<lparr>available_collection := available,
                      possible_collection := possible,
                      evaluations := evals\<rparr>)))"

text \<open>A \<open>Master\<close> as \<open>__main__\<close> hands it to \<open>rate_our_games\<close>: nothing selected or rated yet.\<close>

definition fresh :: "Master \<Rightarrow> bool" where
  "fresh m = (available_collection m = [] \<and> possible_collection m = [] \<and> evaluations m = [])"

subsection \<open>The directed graph of \<open>build_exp_graph\<close>\<close>

text \<open>
  \<open>networkx.DiGraph\<close> is a library, not code of \<open>bgs.py\<close>; the part of it that
  \<open>build_exp_graph\<close> calls is modelled after its documentation. \<open>node\<close> is the dict
  from a node to its attributes, \<open>edge\<close> the edges in insertion order. \<open>add_node\<close> on
  a node that exists overwrites its attributes in place. \<open>add_edge\<close> is only called
  after both ends were added (lines 705 and 709), so it stores the edge alone.
\<close>

record NodeData =
  pMin :: "int option"
  pMax :: "int option"
  isBase :: bool

record DiGraph =
  node :: "(int \<times> NodeData) list"
  edge :: "(int \<times> int) list"

definition empty_graph :: DiGraph where
  "empty_graph = \<lparr>node = [], edge = []\<rparr>"

definition add_node :: "DiGraph \<Rightarrow> int \<Rightarrow> NodeData \<Rightarrow> DiGraph" where
  "add_node g n d = g\<lparr>node := AList.update n d (node g)\<rparr>"

definition add_edge :: "DiGraph \<Rightarrow> int \<Rightarrow> int \<Rightarrow> DiGraph" where
  "add_edge g u v = g\<lparr>edge := (if (u, v) \<in> set (edge g) then edge g else edge g @ [(u, v)])\<rparr>"

definition successors :: "DiGraph \<Rightarrow> int \<Rightarrow> int list" where
  "successors g u = map snd (filter (\<lambda>e. fst e = u) (edge g))"

text \<open>
  \<open>networkx.all_simple_paths(g, source, target)\<close>: the paths from \<open>source\<close> to
  \<open>target\<close> that visit no node twice, by depth-first search along the successors,
  with at most \<open>len(g) - 1\<close> edges (the library's default cutoff). \<open>visited\<close> is
  the path walked so far, its last element the node being expanded. The two ends
  differ wherever \<open>build_exp_graph\<close> calls it (one is a base, the other is not).
\<close>

fun simple_paths_from :: "nat \<Rightarrow> DiGraph \<Rightarrow> int list \<Rightarrow> int \<Rightarrow> int list list" where
  "simple_paths_from 0 g visited target = []"
| "simple_paths_from (Suc cutoff) g visited target =
     concat (map (\<lambda>child.
                    if child = target then [visited @ [target]]
                    else if child \<in> set visited then []
                    else simple_paths_from cutoff g (visited @ [child]) target)
               (successors g (last visited)))"

definition all_simple_paths :: "DiGraph \<Rightarrow> int \<Rightarrow> int \<Rightarrow> int list list" where
  "all_simple_paths g source target =
     simple_paths_from (length (node g) - 1) g [source] target"

text \<open>\<open>networkx.has_path\<close>: some path leads from \<open>source\<close> to \<open>target\<close>.\<close>

definition has_path :: "DiGraph \<Rightarrow> int \<Rightarrow> int \<Rightarrow> bool" where
  "has_path g source target = (all_simple_paths g source target \<noteq> [])"

subsection \<open>\<open>build_exp_graph\<close>, lines 700 to 729\<close>

definition node_data :: "Game \<Rightarrow> NodeData" where
  "node_data game =
     \<lparr>pMin = player_min game, pMax = player_max game, isBase = (\<not> is_an_expansion game)\<rparr>"

text \<open>The inner loop of line 706 for the expansion \<open>gid\<close>.\<close>

fun add_bases :: "Master \<Rightarrow> int \<Rightarrow> int list \<Rightarrow> DiGraph \<Rightarrow> py_error + DiGraph" where
  "add_bases m gid [] g = Inr g"
| "add_bases m gid (base_id # rest) g =
     (if base_id \<in> set (available_collection m) then
        (case getitem (collection m) base_id of
           Inl e \<Rightarrow> Inl e
         | Inr base \<Rightarrow>
             add_bases m gid rest (add_edge (add_node g base_id (node_data base)) base_id gid))
      else add_bases m gid rest g)"

text \<open>The loop of line 702; an \<open>expansion_of\<close> that is \<open>None\<close> or empty is false.\<close>

fun add_games :: "Master \<Rightarrow> int list \<Rightarrow> DiGraph \<Rightarrow> py_error + DiGraph" where
  "add_games m [] g = Inr g"
| "add_games m (gid # rest) g =
     (case getitem (collection m) gid of
        Inl e \<Rightarrow> Inl e
      | Inr game \<Rightarrow>
          (case expansion_of game of
             None \<Rightarrow> add_games m rest g
           | Some bases \<Rightarrow>
               if bases = [] then add_games m rest g
               else (case add_bases m gid bases (add_node g gid (node_data game)) of
                       Inl e \<Rightarrow> Inl e
                     | Inr g' \<Rightarrow> add_games m rest g')))"

text \<open>
  \<open>[self.__collection[n].attr for n in path if self.__collection[n].attr is not None]\<close>
  and \<open>max\<close> of a list, which raises \<open>ValueError\<close> on the empty list.
\<close>

fun collect_attr :: "(Game \<Rightarrow> int option) \<Rightarrow> (int \<times> Game) list \<Rightarrow> int list \<Rightarrow> py_error + int list" where
  "collect_attr attr coll [] = Inr []"
| "collect_attr attr coll (n # ns) =
     (case getitem coll n of
        Inl e \<Rightarrow> Inl e
      | Inr game \<Rightarrow>
          (case collect_attr attr coll ns of
             Inl e \<Rightarrow> Inl e
           | Inr vs \<Rightarrow> Inr (case attr game of None \<Rightarrow> vs | Some v \<Rightarrow> v # vs)))"

fun py_max :: "int list \<Rightarrow> py_error + int" where
  "py_max [] = Inl ValueError"
| "py_max (x # xs) = Inr (fold max xs x)"

text \<open>Lines 723 to 727: whether a path is appended to \<open>base_to_exp[node]\<close>.\<close>

definition path_feasible :: "Master \<Rightarrow> int list \<Rightarrow> py_error + bool" where
  "path_feasible m path =
     (case collect_attr player_max (collection m) path of
        Inl e \<Rightarrow> Inl e
      | Inr maxs \<Rightarrow>
     (case py_max maxs of
        Inl e \<Rightarrow> Inl e
      | Inr p_max \<Rightarrow>
     (case collect_attr player_min (collection m) path of
        Inl e \<Rightarrow> Inl e
      | Inr mins \<Rightarrow>
     (case py_max mins of
        Inl e \<Rightarrow> Inl e
      | Inr p_min \<Rightarrow>
          Inr (p_max \<noteq> 0 \<and> p_min \<noteq> 0
               \<and> in_range (int (length (game_group m))) p_min p_max)))))"

fun feasible_paths :: "Master \<Rightarrow> int list list \<Rightarrow> py_error + int list list" where
  "feasible_paths m [] = Inr []"
| "feasible_paths m (path # rest) =
     (case path_feasible m path of
        Inl e \<Rightarrow> Inl e
      | Inr ok \<Rightarrow>
          (case feasible_paths m rest of
             Inl e \<Rightarrow> Inl e
           | Inr kept \<Rightarrow> Inr (if ok then path # kept else kept)))"

text \<open>The loop of line 718 for one base: the paths to every node that is not a base.\<close>

definition candidate_paths :: "DiGraph \<Rightarrow> int \<Rightarrow> int list list" where
  "candidate_paths g base =
     concat (map (\<lambda>(child, child_data).
                    if isBase child_data then []
                    else if has_path g base child then all_simple_paths g base child
                    else [])
               (node g))"

fun base_to_exp_loop ::
  "Master \<Rightarrow> DiGraph \<Rightarrow> (int \<times> NodeData) list \<Rightarrow> py_error + (int \<times> int list list) list" where
  "base_to_exp_loop m g [] = Inr []"
| "base_to_exp_loop m g ((n, d) # rest) =
     (if \<not> isBase d then base_to_exp_loop m g rest
      else (case feasible_paths m (candidate_paths g n) of
              Inl e \<Rightarrow> Inl e
            | Inr paths \<Rightarrow>
                (case base_to_exp_loop m g rest of
                   Inl e \<Rightarrow> Inl e
                 | Inr others \<Rightarrow> Inr ((n, paths) # others))))"

text \<open>The result is the pair \<open>(base_to_exp, g.node.keys())\<close>.\<close>

definition build_exp_graph :: "Master \<Rightarrow> py_error + (int \<times> int list list) list \<times> int list" where
  "build_exp_graph m =
     (case add_games m (possible_collection m) empty_graph of
        Inl e \<Rightarrow> Inl e
      | Inr g \<Rightarrow>
          (case base_to_exp_loop m g (node g) of
             Inl e \<Rightarrow> Inl e
           | Inr base_to_exp \<Rightarrow> Inr (base_to_exp, map fst (node g))))"

subsection \<open>\<open>show_your_decision\<close>, lines 733 to 756 and 785 to 788\<close>

text \<open>
  Lines 740 to 742: the running maximum over the paths of one base, starting from
  \<open>self.__evaluations.get(base, 0.0)\<close>.
\<close>

definition exp_max_score :: "(int \<times> real) list \<Rightarrow> int \<Rightarrow> int list list \<Rightarrow> real" where
  "exp_max_score evals base exps =
     fold (\<lambda>exp acc. fold max (List.map_filter (map_of evals) exp) acc) exps
       (case map_of evals base of None \<Rightarrow> 0 | Some v \<Rightarrow> v)"

text \<open>Lines 736 to 744: a base without a feasible path gets no entry.\<close>

definition max_scores :: "(int \<times> real) list \<Rightarrow> (int \<times> int list list) list \<Rightarrow> (int \<times> real) list" where
  "max_scores evals graph =
     fold (\<lambda>(base, exps) ms.
             if exps = [] then ms else AList.update base (exp_max_score evals base exps) ms)
       graph []"

text \<open>
  Lines 747 to 751. \<open>new_eval.pop(game_id)\<close> and \<open>max_scores[game_id]\<close> raise
  \<open>KeyError\<close> on a missing key.
\<close>

fun new_eval_loop ::
  "(int \<times> int list list) list \<Rightarrow> (int \<times> real) list \<Rightarrow> int list \<Rightarrow> (int \<times> real) list
     \<Rightarrow> py_error + (int \<times> real) list" where
  "new_eval_loop graph ms [] new_eval = Inr new_eval"
| "new_eval_loop graph ms (gid # rest) new_eval =
     (if map_of graph gid = None then
        (if map_of new_eval gid = None then Inl KeyError
         else new_eval_loop graph ms rest (AList.delete gid new_eval))
      else (case getitem ms gid of
              Inl e \<Rightarrow> Inl e
            | Inr v \<Rightarrow> new_eval_loop graph ms rest (AList.update gid v new_eval)))"

text \<open>The display scores \<open>new_eval\<close> of the mode that nests expansions.\<close>

definition display_scores :: "Master \<Rightarrow> py_error + (int \<times> real) list" where
  "display_scores m =
     (case build_exp_graph m of
        Inl e \<Rightarrow> Inl e
      | Inr (graph, nodes) \<Rightarrow>
          new_eval_loop graph (max_scores (evaluations m) graph) nodes (evaluations m))"

text \<open>
  \<open>sorted(d.items(), key=operator.itemgetter(1), reverse=True)\<close>: stable, by score
  descending. \<open>xs[:limit]\<close> when \<open>limit\<close> is neither \<open>None\<close> nor zero; a negative
  \<open>limit\<close> counts from the end.
\<close>

definition sorted_by_score :: "(int \<times> real) list \<Rightarrow> (int \<times> real) list" where
  "sorted_by_score items = sort_key (\<lambda>item. - snd item) items"

definition apply_limit :: "int option \<Rightarrow> 'a list \<Rightarrow> 'a list" where
  "apply_limit limit xs =
     (case limit of
        None \<Rightarrow> xs
      | Some l \<Rightarrow>
          if l = 0 then xs
          else if 0 < l then take (nat l) xs
          else take (nat (int (length xs) + l)) xs)"

text \<open>
  The ranked list \<open>sorted_evaluation\<close> that \<open>show_your_decision\<close> prints, line by line
  in this order.
\<close>

definition show_your_decision :: "Master \<Rightarrow> int option \<Rightarrow> bool \<Rightarrow> py_error + (int \<times> real) list" where
  "show_your_decision m limit separate_exp =
     (if \<not> separate_exp then
        (case display_scores m of
           Inl e \<Rightarrow> Inl e
         | Inr new_eval \<Rightarrow> Inr (apply_limit limit (sorted_by_score new_eval)))
      else Inr (apply_limit limit (sorted_by_score (evaluations m))))"

subsection \<open>Constructors and scenarios\<close>

text \<open>
  The constructors \<open>Game(game_id)\<close>, \<open>GameStats(game_id)\<close>, \<open>Player(username, is_guest)\<close>
  and \<open>Master()\<close> with the class-level defaults of every other attribute.
\<close>

definition Game_init :: "int \<Rightarrow> Game" where
  "Game_init i =
     \<lparr>game_id = i, name = [], player_min = None, player_max = None, playing_time = None,
      suggested_players = None, is_an_expansion = False, expansion_of = None,
      average_weight = None, average_rating = None\<rparr>"

definition GameStats_init :: GameStats where
  "GameStats_init = \<lparr>owned = False, rating = None, play_count = 0, want_to_play = False\<rparr>"

definition Player_init :: "string \<Rightarrow> bool \<Rightarrow> Player" where
  "Player_init u guest = \<lparr>username = u, is_guest = guest, games_stats = Map.empty\<rparr>"

definition Master_init :: Master where
  "Master_init =
     \<lparr>game_group = [], collection_group = [], collection = [],
      available_collection = [], possible_collection = [], evaluations = []\<rparr>"

text \<open>
  A collection owner who owns the games 1, 2 and 3 and has neither rated them nor
  flagged them, and a game group of three guests (\<open>add_guests(3)\<close>).
\<close>

definition owner123 :: Player where
  "owner123 =
     (Player_init ''owner'' False)\<lparr>games_stats :=
        [1 \<mapsto> GameStats_init\<lparr>owned := True\<rparr>,
         2 \<mapsto> GameStats_init\<lparr>owned := True\<rparr>,
         3 \<mapsto> GameStats_init\<lparr>owned := True\<rparr>]\<rparr>"

definition guests3 :: "Player list" where
  "guests3 =
     [Player_init ''GUEST_0'' True, Player_init ''GUEST_1'' True, Player_init ''GUEST_2'' True]"

text \<open>A game for two to four players whose poll for three players has the votes given.\<close>

definition votes_game :: "(string \<times> int) list \<Rightarrow> Game" where
  "votes_game votes =
     (Game_init 1)\<lparr>player_min := Some 2, player_max := Some 4,
                   suggested_players := Some [(3, votes)]\<rparr>"

text \<open>The run on a single game whose poll for three players has no \<open>Not Recommended\<close> entry.\<close>

definition master_two_categories :: Master where
  "master_two_categories =
     Master_init\<lparr>game_group := guests3, collection_group := [owner123],
                 collection := [(1, votes_game [(''Best'', 10), (''Recommended'', 5)])]\<rparr>"

text \<open>
  The formula of the specification for the suggested-players raw score, for comparison
  with \<open>suggested_values_score\<close>: \<open>Not Recommended\<close> votes are subtracted.
\<close>

definition claimed_suggestion :: "int \<Rightarrow> int \<Rightarrow> int \<Rightarrow> int \<Rightarrow> real" where
  "claimed_suggestion best recommended not_recommended all_votes =
     max 0 (of_int best * 1.0 / of_int all_votes
            + of_int recommended * 0.5 / of_int all_votes
            - of_int not_recommended * 0.5 / of_int all_votes)"

text \<open>
  Games for two to four players with an average rating, and expansions of one base.
  With three guests and nothing requested such a game scores
  \<open>(0.6 * 0.2 + r * 0.4) / 0.6\<close>.
\<close>

definition rated_game :: "int \<Rightarrow> real \<Rightarrow> Game" where
  "rated_game i r =
     (Game_init i)\<lparr>player_min := Some 2, player_max := Some 4, average_rating := Some r\<rparr>"

definition expansion_game :: "int \<Rightarrow> real \<Rightarrow> int \<Rightarrow> Game" where
  "expansion_game i r base_id =
     (rated_game i r)\<lparr>is_an_expansion := True, expansion_of := Some [base_id]\<rparr>"

text \<open>
  A chain: game 1 is a base, game 2 an expansion of 1, game 3 an expansion of 2; all
  owned, all for two to four players. \<open>master_chain_rated\<close> is the state after
  \<open>rate_our_games\<close>.
\<close>

definition master_chain :: Master where
  "master_chain =
     Master_init\<lparr>game_group := guests3, collection_group := [owner123],
                 collection := [(1, rated_game 1 0.3), (2, expansion_game 2 0.6 1),
                                (3, expansion_game 3 0.9 2)]\<rparr>"

definition master_chain_rated :: Master where
  "master_chain_rated =
     master_chain\<lparr>available_collection := [1, 2, 3], possible_collection := [1, 2, 3],
                  evaluations := [(1, 0.4), (2, 0.6), (3, 0.8)]\<rparr>"

text \<open>
  A base for five to six players with an expansion for two to four players, both owned,
  and a group of three: the expansion is a candidate, the only path from the base to it
  has the bracket 5 to 6.
\<close>

definition master_no_path :: Master where
  "master_no_path =
     Master_init\<lparr>game_group := guests3, collection_group := [owner123],
                 collection :=
                   [(1, (Game_init 1)\<lparr>player_min := Some 5, player_max := Some 6\<rparr>),
                    (2, (Game_init 2)\<lparr>player_min := Some 2, player_max := Some 4,
                                       is_an_expansion := True, expansion_of := Some [1]\<rparr>)]\<rparr>"

definition master_no_path_rated :: Master where
  "master_no_path_rated =
     master_no_path\<lparr>available_collection := [1, 2], possible_collection := [2],
                    evaluations := [(2, 0.5333)]\<rparr>"

text \<open>A base and its expansion, both owned, neither with player counts.\<close>

definition master_no_bounds :: Master where
  "master_no_bounds =
     Master_init\<lparr>game_group := guests3, collection_group := [owner123],
                 collection :=
                   [(1, Game_init 1),
                    (2, (Game_init 2)\<lparr>is_an_expansion := True, expansion_of := Some [1]\<rparr>)]\<rparr>"

definition master_no_bounds_rated :: Master where
  "master_no_bounds_rated =
     master_no_bounds\<lparr>available_collection := [1, 2], possible_collection := [1, 2],
                      evaluations := [(1, 0.5333), (2, 0.5333)]\<rparr>"

subsection \<open>An invariant of the graph under construction\<close>


subsection \<open>Unfolding sets for evaluation\<close>

lemmas data_defs = Game_init_def GameStats_init_def Player_init_def Master_init_def
  owner123_def guests3_def votes_game_def

lemmas prim_defs = bind_err_def truthy_def getitem_def truediv_def in_range_def set_add_def
  Let_def

lemmas score_defs = score_playing_time_def score_weight_def score_suggestion_def
  suggested_values_score_def player_step_def players_start_def players_score_def
  final_score_def rate_game_def

lemmas filter_defs = owned_by_group_def select_available_def check_game_def
  candidate_filter_def rate_our_games_def

lemmas round_defs = standardize_def py_round4_def round_half_even_def

lemmas graph_defs = empty_graph_def add_node_def add_edge_def successors_def
  all_simple_paths_def has_path_def node_data_def path_feasible_def candidate_paths_def
  build_exp_graph_def

lemmas rank_defs = exp_max_score_def max_scores_def display_scores_def sorted_by_score_def
  apply_limit_def show_your_decision_def

lemmas scen_defs = rated_game_def expansion_game_def master_chain_def master_chain_rated_def
  master_no_path_def master_no_path_rated_def master_no_bounds_def master_no_bounds_rated_def

section \<open>The suggested number of players\<close>

lemma score_suggestion_value:
  assumes "map_of vs ''Best'' = Some b"
      and "map_of vs ''Recommended'' = Some r"
      and "map_of vs ''Not Recommended'' = Some nr"
      and "sum_list (map snd vs) \<noteq> 0"
  shows "score_suggestion vs =
           Inr (of_int b / of_int (sum_list (map snd vs))
                + of_int r * 0.5 / of_int (sum_list (map snd vs)))"
  using assms by (simp add: score_suggestion_def prim_defs)

text \<open>
  Claim C1, as amended. For a game with votes for the exact group size in which the
  three categories are present and the total is not zero, the raw score is
  \<open>max(0, Best * 1.0 / total + Recommended * 0.5 / total)\<close> with weight 0.2: the
  \<open>Not Recommended\<close> share is added on line 638 and subtracted on line 641, so these
  votes change the raw score only through the total.
\<close>

theorem suggested_score_ignores_not_recommended:
  assumes "suggested_players g = Some sp"
      and "map_of sp n = Some vs"
      and "map_of vs ''Best'' = Some b"
      and "map_of vs ''Recommended'' = Some r"
      and "map_of vs ''Not Recommended'' = Some nr"
      and "sum_list (map snd vs) \<noteq> 0"
  shows "suggested_values_score g n =
           Inr (max 0 (of_int b * 1.0 / of_int (sum_list (map snd vs))
                       + of_int r * 0.5 / of_int (sum_list (map snd vs))), 0.2)"
proof -
  from assms(2) have sp: "sp \<noteq> []" by auto
  from assms(3) have vs: "vs \<noteq> []" by auto
  show ?thesis
    using assms(1,2) sp vs score_suggestion_value [OF assms(3-6)]
    by (simp add: suggested_values_score_def bind_err_def)
qed

theorem suggested_score_ignores_not_recommended_witness:
  "suggested_values_score
     (votes_game [(''Best'', 0), (''Recommended'', 10), (''Not Recommended'', 10)]) 3
   = Inr (1 / 4, 0.2)"
  using suggested_score_ignores_not_recommended
    [of "votes_game [(''Best'', 0), (''Recommended'', 10), (''Not Recommended'', 10)]"
        "[(3, [(''Best'', 0), (''Recommended'', 10), (''Not Recommended'', 10)])]" 3
        "[(''Best'', 0), (''Recommended'', 10), (''Not Recommended'', 10)]" 0 10 10]
  by (simp add: data_defs)

text \<open>
  Claim C1 as stated fails: with no \<open>Best\<close> vote, 10 \<open>Recommended\<close> and 10
  \<open>Not Recommended\<close> votes the code scores \<open>1/4\<close>, where the claimed formula gives 0.
\<close>

theorem suggested_score_not_lowered_counterexample:
  "suggested_values_score
     (votes_game [(''Best'', 0), (''Recommended'', 10), (''Not Recommended'', 10)]) 3
   = Inr (1 / 4, 0.2)
   \<and> claimed_suggestion 0 10 10 20 = 0"
  by (simp add: data_defs prim_defs score_defs claimed_suggestion_def)

text \<open>
  Claim C9, evaluated at the failing input: a poll entry for the group size without the
  category \<open>Not Recommended\<close> makes \<open>rate_our_games\<close> end in \<open>KeyError\<close> (line 638),
  whatever time and weight are requested, instead of rating the game.
\<close>

theorem missing_vote_category_aborts:
  "rate_our_games master_two_categories req_time req_weight = Inl KeyError"
  by (simp add: master_two_categories_def data_defs prim_defs filter_defs score_defs)

section \<open>The playing-time score\<close>

lemma two_powr_below: "2 powr (7 / 2) < (32::real)"
proof -
  have "(2::real) powr (7 / 2) < 2 powr 5" by (rule powr_less_mono) simp_all
  also have "(2::real) powr 5 = 32" by simp
  finally show ?thesis .
qed

lemma two_powr_above: "(4::real) < 2 powr (7 / 2)"
proof -
  have "(2::real) powr 2 < 2 powr (7 / 2)" by (rule powr_less_mono) simp_all
  moreover have "(2::real) powr 2 = 4" by simp
  ultimately show ?thesis by simp
qed

text \<open>
  Claim C7, as amended. With a game of 60 minutes and a target of 60 the raw score is
  exactly 1. With a target of 120 the delta is 60 and \<open>max_delta\<close> is the target, 120,
  so the decay branch is taken: the raw score is \<open>1 - (2 powr 3.5 - 4) / 28\<close>, strictly
  between 0 and 1, and not 0.
\<close>

theorem playing_time_scenarios:
  assumes "playing_time g = Some 60"
  shows "score_playing_time g (Some 60) w = (1, 0.4)
       \<and> score_playing_time g (Some 120) w = (1 - (2 powr (7 / 2) - 4) / 28, 0.4)
       \<and> 0 < 1 - (2 powr (7 / 2) - 4) / (28::real)
       \<and> 1 - (2 powr (7 / 2) - 4) / (28::real) < 1"
  using assms two_powr_below two_powr_above by (simp add: score_playing_time_def)

theorem playing_time_scenarios_witness:
  "score_playing_time ((Game_init 1)\<lparr>playing_time := Some 60\<rparr>) (Some 60) None = (1, 0.4)
   \<and> 0 < fst (score_playing_time ((Game_init 1)\<lparr>playing_time := Some 60\<rparr>) (Some 120) None)"
  using playing_time_scenarios [of "(Game_init 1)\<lparr>playing_time := Some 60\<rparr>" None]
  by (simp add: data_defs)

text \<open>Claim C7 as stated fails: target 120 and playing time 60 do not give raw 0.\<close>

theorem playing_time_120_60_counterexample:
  "fst (score_playing_time ((Game_init 1)\<lparr>playing_time := Some 60\<rparr>) (Some 120) None) \<noteq> 0"
  using two_powr_below by (simp add: score_playing_time_def data_defs prim_defs)

text \<open>
  Claim C4, as amended. For a game without \<open>playing_time\<close> the sub-score does not depend
  on the requested time: it is \<open>(0, 0)\<close> when no target weight (or the weight 0) was
  requested, and the neutral default \<open>(0.5, 0.4)\<close> whenever a target weight was
  requested, with or without a target time.
\<close>

theorem playing_time_missing_follows_weight:
  assumes "playing_time g = None"
  shows "score_playing_time g req_time req_weight
           = (if truthy req_weight then (0.5, 0.4) else (0, 0))"
  using assms by (simp add: score_playing_time_def)

theorem playing_time_missing_follows_weight_witness:
  "score_playing_time (Game_init 1) (Some 60) (Some 2.5) = (0.5, 0.4)
   \<and> score_playing_time (Game_init 1) (Some 60) None = (0, 0)"
  using playing_time_missing_follows_weight [of "Game_init 1" "Some 60" "Some 2.5"]
    playing_time_missing_follows_weight [of "Game_init 1" "Some 60" None]
  by (simp add: data_defs prim_defs)

text \<open>
  Claim C4 as stated fails: with a target time of 60 and a target weight of 2.5 a game
  without \<open>playing_time\<close> gets raw 0.5 with weight 0.4, not raw 0 with weight 0.
\<close>

theorem playing_time_missing_counterexample:
  "score_playing_time (Game_init 1) (Some 60) (Some 2.5) = (0.5, 0.4)
   \<and> score_playing_time (Game_init 1) (Some 60) (Some 2.5) \<noteq> (0, 0)"
  by (simp add: score_playing_time_def data_defs prim_defs)

section \<open>The players' taste score\<close>

lemma skip_step:
  assumes "\<not> is_guest p"
      and "games_stats p gid = Some stats"
      and "\<not> want_to_play stats"
      and "rating stats = None"
  shows "player_step gid p acc = acc"
  using assms by (simp add: player_step_def truthy_def split: prod.splits)

text \<open>
  Claim C5. A member who is not a guest and has statistics for the game, but neither a
  rating nor the want-to-play flag, leaves both the running score and the denominator
  \<open>divide_by\<close> unchanged, so the sub-score is the same with and without that member;
  and when the denominator ends at 0 the sub-score is raw 0.5 with weight 0.4.
\<close>

theorem players_score_skips_silent_members:
  "(\<not> is_guest p \<and> games_stats p gid = Some stats \<and> \<not> want_to_play stats
      \<and> rating stats = None
      \<longrightarrow> player_step gid p (running_score, divide_by) = (running_score, divide_by)
        \<and> players_score gid g (before @ p # after) = players_score gid g (before @ after))
   \<and> (snd (fold (player_step gid) players (players_start g)) = 0
      \<longrightarrow> players_score gid g players = (0.5, 0.4))"
proof (intro conjI impI)
  assume a: "\<not> is_guest p \<and> games_stats p gid = Some stats \<and> \<not> want_to_play stats
    \<and> rating stats = None"
  then have s: "\<And>acc. player_step gid p acc = acc" by (simp add: skip_step)
  show "player_step gid p (running_score, divide_by) = (running_score, divide_by)" by (rule s)
  show "players_score gid g (before @ p # after) = players_score gid g (before @ after)"
    by (simp add: players_score_def s)
next
  assume "snd (fold (player_step gid) players (players_start g)) = 0"
  then show "players_score gid g players = (0.5, 0.4)"
    by (cases "fold (player_step gid) players (players_start g)") (simp add: players_score_def)
qed

theorem players_score_skips_silent_members_witness:
  "player_step 1 owner123 (3 / 10, 1 / 2) = (3 / 10, 1 / 2)
   \<and> players_score 1 ((Game_init 1)\<lparr>average_rating := Some 0.6\<rparr>) (guests3 @ owner123 # guests3)
       = players_score 1 ((Game_init 1)\<lparr>average_rating := Some 0.6\<rparr>) (guests3 @ guests3)
   \<and> players_score 1 (Game_init 1) [owner123] = (0.5, 0.4)"
  using players_score_skips_silent_members
    [of owner123 1 "GameStats_init\<lparr>owned := True\<rparr>" "3 / 10" "1 / 2"
        "(Game_init 1)\<lparr>average_rating := Some 0.6\<rparr>" guests3 guests3 "[owner123]"]
    players_score_skips_silent_members
    [of owner123 1 "GameStats_init\<lparr>owned := True\<rparr>" 0 0 "Game_init 1" "[]" "[]" "[owner123]"]
  by (simp add: data_defs prim_defs player_step_def players_start_def players_score_def)

section \<open>Standardized scores\<close>

lemma round_half_even_bound: "\<bar>of_int (round_half_even y) - y\<bar> \<le> 1 / 2"
proof -
  have a: "of_int \<lfloor>y\<rfloor> \<le> y" and b: "y < of_int \<lfloor>y\<rfloor> + 1" by linarith+
  show ?thesis
    unfolding round_half_even_def Let_def using a b by (simp split: if_splits)
qed

lemma py_round4_near: "\<bar>py_round4 x - x\<bar> \<le> 1 / 20000"
proof -
  have "\<bar>of_int (round_half_even (x * 10000)) - x * 10000\<bar> \<le> 1 / 2"
    by (rule round_half_even_bound)
  then show ?thesis unfolding py_round4_def by (simp add: field_simps abs_le_iff)
qed

lemma standardize_bounds: "0 \<le> standardize x \<and> standardize x \<le> 1"
  by (simp add: standardize_def)

lemma standardize_digits: "\<exists>k::int. standardize x = of_int k / 10000"
proof -
  let ?r = "round_half_even (x * 10000)"
  have "standardize x = 0 \<or> standardize x = 1 \<or> standardize x = of_int ?r / 10000"
    unfolding standardize_def py_round4_def by (auto simp: max_def min_def)
  moreover have "(0::real) = of_int 0 / 10000" "(1::real) = of_int 10000 / 10000" by simp_all
  ultimately show ?thesis by metis
qed

lemma final_score_bounds: "0 \<le> final_score scores \<and> final_score scores \<le> 1"
  by (simp add: final_score_def Let_def standardize_bounds)

lemma rate_game_bounds: "rate_game gid g ps t w = Inr s \<Longrightarrow> 0 \<le> s \<and> s \<le> 1"
  by (auto simp: rate_game_def bind_err_def final_score_bounds split: sum.splits)

lemma update_entries: "set (AList.update k v al) \<subseteq> insert (k, v) (set al)"
  by (induction al) auto

lemma update_keeps_bounds:
  assumes "\<forall>item\<in>set evals. 0 \<le> snd item \<and> snd item \<le> (1::real)" and "0 \<le> s \<and> s \<le> 1"
  shows "\<forall>item\<in>set (AList.update k s evals). 0 \<le> snd item \<and> snd item \<le> 1"
proof
  fix item assume "item \<in> set (AList.update k s evals)"
  with update_entries have "item = (k, s) \<or> item \<in> set evals" by fastforce
  with assms show "0 \<le> snd item \<and> snd item \<le> 1" by auto
qed

lemma rate_all_bounds:
  assumes "rate_all m t w todo evals = Inr res"
      and "\<forall>item\<in>set evals. 0 \<le> snd item \<and> snd item \<le> 1"
  shows "\<forall>item\<in>set res. 0 \<le> snd item \<and> snd item \<le> 1"
  using assms
proof (induction todo arbitrary: evals)
  case Nil
  then show ?case by simp
next
  case (Cons gid rest)
  from Cons.prems(1) obtain g s where s: "rate_game gid g (game_group m) t w = Inr s"
    and r: "rate_all m t w rest (AList.update gid s evals) = Inr res"
    by (auto split: sum.splits)
  from s have "0 \<le> s \<and> s \<le> 1" by (rule rate_game_bounds)
  with Cons.prems(2) have "\<forall>item\<in>set (AList.update gid s evals). 0 \<le> snd item \<and> snd item \<le> 1"
    by (rule update_keeps_bounds)
  with r show ?case by (rule Cons.IH)
qed

lemma rate_our_games_bounds:
  assumes "rate_our_games m t w = Inr m'"
      and "\<forall>item\<in>set (evaluations m). 0 \<le> snd item \<and> snd item \<le> 1"
  shows "\<forall>item\<in>set (evaluations m'). 0 \<le> snd item \<and> snd item \<le> 1"
proof -
  from assms(1) obtain possible evals where
    r: "rate_all m t w possible (evaluations m) = Inr evals" and e: "evaluations m' = evals"
    by (auto simp: rate_our_games_def split: sum.splits prod.splits)
  from rate_all_bounds [OF r assms(2)] e show ?thesis by simp
qed

lemma rate_chain: "rate_our_games master_chain None None = Inr master_chain_rated"
  by (simp add: scen_defs data_defs prim_defs filter_defs score_defs round_defs)

lemma rate_no_path: "rate_our_games master_no_path None None = Inr master_no_path_rated"
  by (simp add: scen_defs data_defs prim_defs filter_defs score_defs round_defs)

lemma rate_no_bounds: "rate_our_games master_no_bounds None None = Inr master_no_bounds_rated"
  by (simp add: scen_defs data_defs prim_defs filter_defs score_defs round_defs)

text \<open>
  Claim C8. \<open>standardize x\<close> lies between 0 and 1 and is a multiple of \<open>1/10000\<close>; it
  is \<open>round(x, 4)\<close> clamped to the unit interval, where \<open>round(x, 4)\<close> is within
  \<open>1/20000\<close> of \<open>x\<close>. Consequently \<open>rate_our_games\<close> keeps every score of the
  evaluation map between 0 and 1: if the scores it starts from are (none, for a fresh
  \<open>Master\<close>), so are the scores it returns.
\<close>

theorem standardize_and_scores_in_unit_interval:
  "(0 \<le> standardize x \<and> standardize x \<le> 1)
   \<and> (\<exists>k::int. standardize x = of_int k / 10000)
   \<and> standardize x = max 0 (min 1 (py_round4 x))
   \<and> \<bar>py_round4 x - x\<bar> \<le> 1 / 20000
   \<and> (rate_our_games m req_time req_weight = Inr m'
        \<and> (\<forall>item\<in>set (evaluations m). 0 \<le> snd item \<and> snd item \<le> 1)
      \<longrightarrow> (\<forall>item\<in>set (evaluations m'). 0 \<le> snd item \<and> snd item \<le> 1))"
proof (intro conjI impI)
  show "0 \<le> standardize x" and "standardize x \<le> 1" using standardize_bounds [of x] by simp_all
  show "\<exists>k::int. standardize x = of_int k / 10000" by (rule standardize_digits)
  show "standardize x = max 0 (min 1 (py_round4 x))" by (simp add: standardize_def)
  show "\<bar>py_round4 x - x\<bar> \<le> 1 / 20000" by (rule py_round4_near)
next
  assume a: "rate_our_games m req_time req_weight = Inr m'
        \<and> (\<forall>item\<in>set (evaluations m). 0 \<le> snd item \<and> snd item \<le> 1)"
  from a have r: "rate_our_games m req_time req_weight = Inr m'" ..
  from a have b: "\<forall>item\<in>set (evaluations m). 0 \<le> snd item \<and> snd item \<le> 1" ..
  from r b show "\<forall>item\<in>set (evaluations m'). 0 \<le> snd item \<and> snd item \<le> 1"
    by (rule rate_our_games_bounds)
qed

theorem standardize_and_scores_in_unit_interval_witness:
  "rate_our_games master_chain None None = Inr master_chain_rated
   \<and> list_all (\<lambda>item. 0 \<le> snd item \<and> snd item \<le> 1) (evaluations master_chain_rated)
   \<and> 0 \<le> standardize (8 / 15) \<and> standardize (8 / 15) \<le> 1"
proof -
  have e: "\<forall>item\<in>set (evaluations master_chain). 0 \<le> snd item \<and> snd item \<le> 1"
    by (simp add: scen_defs data_defs)
  note t = standardize_and_scores_in_unit_interval
    [of "8 / 15" master_chain None None master_chain_rated]
  from t rate_chain e
  have "\<forall>item\<in>set (evaluations master_chain_rated). 0 \<le> snd item \<and> snd item \<le> 1"
    by blast
  then have "list_all (\<lambda>item. 0 \<le> snd item \<and> snd item \<le> 1) (evaluations master_chain_rated)"
    by (simp add: list_all_iff)
  moreover from t have "0 \<le> standardize (8 / 15) \<and> standardize (8 / 15) \<le> 1" by blast
  ultimately show ?thesis using rate_chain by blast
qed

section \<open>The candidate filter\<close>

lemma set_add_set: "set (set_add s x) = insert x (set s)"
  by (auto simp: set_add_def)

lemma select_fold_set:
  "set (fold (\<lambda>k s. if P k then set_add s k else s) ks s0) = set s0 \<union> {k \<in> set ks. P k}"
  by (induction ks arbitrary: s0) (auto simp: set_add_set)

lemma select_available_sound:
  assumes "gid \<in> set (select_available m)" and "available_collection m = []"
  shows "gid \<in> fst ` set (collection m) \<and> owned_by_group (collection_group m) gid"
  using assms by (auto simp: select_available_def select_fold_set)

lemma check_game_true:
  assumes "check_game available n g = Inr True"
  shows "(\<forall>lo hi. player_min g = Some lo \<and> player_max g = Some hi \<longrightarrow> lo \<le> n \<and> n \<le> hi)
       \<and> (is_an_expansion g \<longrightarrow>
            (\<exists>bases. expansion_of g = Some bases \<and> (\<exists>b\<in>set bases. b \<in> set available)))"
  using assms
  by (auto simp: check_game_def in_range_def list_all_iff split: if_splits option.splits)

lemma select_possible_sound:
  assumes "select_possible coll available n todo possible = Inr res"
      and "gid \<in> set res"
  shows "gid \<in> set possible
       \<or> (gid \<in> set todo \<and> (\<exists>g. map_of coll gid = Some g \<and> check_game available n g = Inr True))"
  using assms
proof (induction todo arbitrary: possible)
  case Nil
  then show ?case by simp
next
  case (Cons k rest)
  from Cons.prems(1) obtain g ok where g: "getitem coll k = Inr g"
    and ok: "check_game available n g = Inr ok"
    and r: "select_possible coll available n rest (if ok then set_add possible k else possible) = Inr res"
    by (auto split: sum.splits)
  from g have mg: "map_of coll k = Some g" by (auto simp: getitem_def split: option.splits)
  from Cons.IH [OF r Cons.prems(2)] show ?case
    using ok mg by (auto simp: set_add_set split: if_splits)
qed

text \<open>
  Claim C3. When the filter of a fresh \<open>Master\<close> returns \<open>(available, possible)\<close>:
  \<open>possible\<close> is a subset of \<open>available\<close>; every available game is a key of the
  collection owned by some member of the collection group; every possible game with both
  \<open>player_min\<close> and \<open>player_max\<close> set has the group size between them; and every
  possible game that is an expansion has one of its \<open>expansion_of\<close> ids in \<open>available\<close>.
\<close>

theorem candidate_filter_sound:
  assumes "candidate_filter m = Inr (available, possible)" and "fresh m"
  shows "set possible \<subseteq> set available
    \<and> (\<forall>gid\<in>set available. gid \<in> fst ` set (collection m) \<and> owned_by_group (collection_group m) gid)
    \<and> (\<forall>gid\<in>set possible. \<exists>g. map_of (collection m) gid = Some g
          \<and> (\<forall>lo hi. player_min g = Some lo \<and> player_max g = Some hi
                 \<longrightarrow> lo \<le> int (length (game_group m)) \<and> int (length (game_group m)) \<le> hi)
          \<and> (is_an_expansion g \<longrightarrow>
               (\<exists>bases. expansion_of g = Some bases \<and> (\<exists>b\<in>set bases. b \<in> set available))))"
proof -
  from assms(2) have av0: "available_collection m = []" and po0: "possible_collection m = []"
    by (simp_all add: fresh_def)
  from assms(1) have av: "available = select_available m"
    and sp: "select_possible (collection m) available (int (length (game_group m))) available [] = Inr possible"
    using po0 by (auto simp: candidate_filter_def Let_def split: if_splits sum.splits)
  have sound: "\<And>gid. gid \<in> set possible \<Longrightarrow> gid \<in> set available \<and>
       (\<exists>g. map_of (collection m) gid = Some g \<and> check_game available (int (length (game_group m))) g = Inr True)"
    using select_possible_sound [OF sp] by auto
  have 1: "set possible \<subseteq> set available" using sound by blast
  have 2: "\<forall>gid\<in>set available. gid \<in> fst ` set (collection m) \<and> owned_by_group (collection_group m) gid"
    using select_available_sound [OF _ av0] av by blast
  have 3: "\<forall>gid\<in>set possible. \<exists>g. map_of (collection m) gid = Some g
          \<and> (\<forall>lo hi. player_min g = Some lo \<and> player_max g = Some hi
                 \<longrightarrow> lo \<le> int (length (game_group m)) \<and> int (length (game_group m)) \<le> hi)
          \<and> (is_an_expansion g \<longrightarrow>
               (\<exists>bases. expansion_of g = Some bases \<and> (\<exists>b\<in>set bases. b \<in> set available)))"
  proof
    fix gid assume "gid \<in> set possible"
    from sound [OF this] obtain g where g: "map_of (collection m) gid = Some g"
      and c: "check_game available (int (length (game_group m))) g = Inr True" by blast
    from check_game_true [OF c] g show "\<exists>g. map_of (collection m) gid = Some g
          \<and> (\<forall>lo hi. player_min g = Some lo \<and> player_max g = Some hi
                 \<longrightarrow> lo \<le> int (length (game_group m)) \<and> int (length (game_group m)) \<le> hi)
          \<and> (is_an_expansion g \<longrightarrow>
               (\<exists>bases. expansion_of g = Some bases \<and> (\<exists>b\<in>set bases. b \<in> set available)))"
      by blast
  qed
  from 1 2 3 show ?thesis by blast
qed

theorem candidate_filter_sound_witness:
  "candidate_filter master_no_path = Inr ([1, 2], [2]) \<and> fresh master_no_path
   \<and> set [2::int] \<subseteq> set [1, 2]"
proof -
  have f: "candidate_filter master_no_path = Inr ([1, 2], [2])"
    by (simp add: scen_defs data_defs prim_defs filter_defs)
  have fr: "fresh master_no_path" by (simp add: fresh_def scen_defs data_defs)
  from candidate_filter_sound [OF f fr] have "set [2::int] \<subseteq> set [1, 2]" by blast
  with f fr show ?thesis by blast
qed

section \<open>The expansion graph\<close>














section \<open>Display scores and the ranked list\<close>























text \<open>
  Claim C10, evaluated at two failing inputs. With a base for five to six players, an
  expansion for two to four and a group of three, the base has no feasible path, gets no
  entry in \<open>max_scores\<close> (line 738), and line 751 raises \<open>KeyError\<close>. With a base and an
  expansion without player counts, \<open>max\<close> of line 723 is taken over an empty list and
  raises \<open>ValueError\<close>. Both states are reached by \<open>rate_our_games\<close>.
\<close>

theorem rerank_fails_without_feasible_path:
  "rate_our_games master_no_path None None = Inr master_no_path_rated
   \<and> build_exp_graph master_no_path_rated = Inr ([(1, [])], [2, 1])
   \<and> show_your_decision master_no_path_rated None False = Inl KeyError
   \<and> rate_our_games master_no_bounds None None = Inr master_no_bounds_rated
   \<and> show_your_decision master_no_bounds_rated None False = Inl ValueError"
proof -
  have 1: "build_exp_graph master_no_path_rated = Inr ([(1, [])], [2, 1])"
    by (simp add: scen_defs data_defs prim_defs graph_defs)
  have 2: "show_your_decision master_no_path_rated None False = Inl KeyError"
    by (simp add: scen_defs data_defs prim_defs graph_defs rank_defs)
  have 3: "show_your_decision master_no_bounds_rated None False = Inl ValueError"
    by (simp add: scen_defs data_defs prim_defs graph_defs rank_defs)
  from rate_no_path 1 2 rate_no_bounds 3 show ?thesis by blast
qed

end
